theory Spec2Isabelle
  imports Complex_Main
begin

section \<open>useMediaControls: data model\<close>

text \<open>
  A shallow embedding of \<^verbatim>\<open>packages/core/useMediaControls/index.ts\<close>. The closure
  state of one \<^verbatim>\<open>useMediaControls\<close> call (its refs, its options and the element the
  target refers to) is a record that every operation takes and returns. Seconds,
  volume and rate are JavaScript numbers that the code only copies; they are reals
  here. Track ids and \<^verbatim>\<open>selectedTrack\<close> are integers (\<^verbatim>\<open>-1\<close> is "none").

  Embedded are the track operations, the picture-in-picture toggle, the effects that
  inject \<^verbatim>\<open><source>\<close> and \<^verbatim>\<open><track>\<close> children, the callbacks of the two ignorable
  watches and all the listeners. Left out are the effect that copies the scalar options (\<^verbatim>\<open>loop\<close>,
  \<^verbatim>\<open>controls\<close>, \<^verbatim>\<open>muted\<close>, ...) and the volume onto the element, and the removal of
  listeners on unmount; they touch none of the state below. The element's children
  are its direct children, and its native text tracks are a collection of their own
  that the browser, not the module, fills.
\<close>

subsection \<open>Interfaces of the source\<close>

text \<open>\<^verbatim>\<open>UseMediaSource\<close>: \<^verbatim>\<open>src\<close> and the optional \<^verbatim>\<open>type\<close>.\<close>

record UseMediaSource =
  source_src :: string
  source_type :: "string option"

datatype TextTrackKind = subtitles | captions | descriptions | chapters | metadata

datatype TextTrackMode = disabled | hidden | showing

text \<open>\<^verbatim>\<open>UseMediaTextTrackSource\<close>: \<^verbatim>\<open>default\<close> is optional, the rest is required.\<close>

record UseMediaTextTrackSource =
  track_default :: "bool option"
  track_kind :: TextTrackKind
  track_label :: string
  track_src :: string
  track_srcLang :: string

text \<open>
  A native \<^verbatim>\<open>TextTrack\<close>, restricted to the properties \<^verbatim>\<open>tracksToArray\<close> reads.
  A cue list is a list of cue texts; \<^verbatim>\<open>null\<close> is \<open>None\<close>.
\<close>

record TextTrack =
  label :: string
  kind :: TextTrackKind
  language :: string
  mode :: TextTrackMode
  activeCues :: "string list option"
  cues :: "string list option"
  inBandMetadataTrackDispatchType :: string

text \<open>\<^verbatim>\<open>UseMediaTextTrack\<close>: the same properties and the \<^verbatim>\<open>id\<close>.\<close>

record UseMediaTextTrack = TextTrack +
  track_id :: int

subsection \<open>The native element\<close>

text \<open>
  The children of the media element that the module creates and removes are
  \<^verbatim>\<open><source>\<close> and \<^verbatim>\<open><track>\<close> elements; any other child is opaque. A source child
  carries its two attributes and whether the \<^verbatim>\<open>error\<close> listener is attached.
\<close>

datatype node =
  SourceElement (attr_src: string) (attr_type: string) (error_listener: bool)
| TrackElement (el_default: bool) (el_kind: TextTrackKind) (el_label: string)
    (el_src: string) (el_srclang: string)
| OtherElement string

fun is_source :: "node \<Rightarrow> bool" where
  "is_source (SourceElement _ _ _) = True"
| "is_source _ = False"

fun is_track :: "node \<Rightarrow> bool" where
  "is_track (TrackElement _ _ _ _ _) = True"
| "is_track _ = False"

text \<open>
  The commands the module issues on the element, in the order issued: an assignment
  to \<^verbatim>\<open>el.currentTime\<close>, and the calls \<^verbatim>\<open>el.play()\<close>, \<^verbatim>\<open>el.pause()\<close> and \<^verbatim>\<open>el.load()\<close>.
  The element keeps this log so that "how many times" can be stated.
\<close>

datatype native_call = AssignCurrentTime real | CallPlay | CallPause | CallLoad

record HTMLMediaElement =
  children :: "node list"
  textTracks :: "TextTrack list"
  el_currentTime :: real
  el_duration :: real
  el_playbackRate :: real
  el_buffered :: "(real \<times> real) list"
  calls :: "native_call list"

text \<open>
  The document, as far as the module looks at it: whether it has the property
  \<^verbatim>\<open>pictureInPictureEnabled\<close>. \<^verbatim>\<open>createElement\<close> is the constructors of \<^typ>\<open>node\<close>.
\<close>

record Document =
  has_pictureInPictureEnabled :: bool

subsection \<open>The state of one controller\<close>

text \<open>\<^verbatim>\<open>options.src\<close>: unset, a string, one descriptor or a list of descriptors.\<close>

datatype src_option =
  SrcUndefined
| SrcString string
| SrcObject UseMediaSource
| SrcArray "UseMediaSource list"

text \<open>
  The two cells watched with \<^verbatim>\<open>ignorableWatch\<close>, and what such a watch keeps (see
  below): the value its effect last ran for, the number of changes of the cell since
  then, and the number of those made inside \<^verbatim>\<open>ignoreUpdates\<close>.
\<close>

datatype watched_cell = CurrentTime_cell | Playing_cell

record 'a ignorable_watch =
  oldValue :: 'a
  syncCounter :: nat
  ignoreCounter :: nat

text \<open>
  An assignment to \<^verbatim>\<open>currentTime.value\<close> or to \<^verbatim>\<open>playing.value\<close>. The controller logs
  them in \<open>writes\<close>, as the element logs its commands, so that they can be counted.
  \<open>queue\<close> holds the watches whose job is queued, in the order they were queued.
\<close>

datatype cell_write = CurrentTime_value real | Playing_value bool

record media =
  target :: "HTMLMediaElement option"
  document :: "Document option"
  options_src :: src_option
  options_tracks :: "UseMediaTextTrackSource list option"
  currentTime :: real
  duration :: real
  seeking :: bool
  buffering :: bool
  volume :: real
  waiting :: bool
  ended :: bool
  playing :: bool
  rate :: real
  stalled :: bool
  buffered :: "(real \<times> real) list"
  tracks :: "UseMediaTextTrack list"
  selectedTrack :: int
  isPictureInPicture :: bool
  currentTime_watch :: "real ignorable_watch"
  playing_watch :: "bool ignorable_watch"
  queue :: "watched_cell list"
  writes :: "cell_write list"

section \<open>Helpers of the source\<close>

text \<open>
  \<^verbatim>\<open>usingElRef(source, cb)\<close> runs \<^verbatim>\<open>cb\<close> on the element when the reference holds one and
  does nothing otherwise; \<open>otherwise\<close> is the result of doing nothing.
\<close>

definition usingElRef :: "'e option \<Rightarrow> ('e \<Rightarrow> 'r) \<Rightarrow> 'r \<Rightarrow> 'r" where
  "usingElRef source cb otherwise = (case source of None \<Rightarrow> otherwise | Some el \<Rightarrow> cb el)"

text \<open>\<^verbatim>\<open>timeRangeToArray\<close>: the pairs \<^verbatim>\<open>[start(i), end(i)]\<close> for \<^verbatim>\<open>i\<close> from 0 up.\<close>

definition timeRangeToArray :: "(real \<times> real) list \<Rightarrow> (real \<times> real) list" where
  "timeRangeToArray timeRanges =
     foldl (\<lambda>ranges i. ranges @ [(fst (timeRanges ! i), snd (timeRanges ! i))]) []
       [0..<length timeRanges]"

text \<open>
  \<^verbatim>\<open>tracksToArray\<close>: \<^verbatim>\<open>Array.from(tracks).map((track, id) => ({ id, ... }))\<close>; the second
  argument of the callback of \<^verbatim>\<open>map\<close> is the index.
\<close>

definition tracksToArray :: "TextTrack list \<Rightarrow> UseMediaTextTrack list" where
  "tracksToArray ts =
     map (\<lambda>(t, id).
            \<lparr>label = label t, kind = kind t, language = language t, mode = mode t,
             activeCues = activeCues t, cues = cues t,
             inBandMetadataTrackDispatchType = inBandMetadataTrackDispatchType t,
             track_id = int id\<rparr>)
         (zip ts [0..<length ts])"

text \<open>
  The listeners on \<^verbatim>\<open>el.textTracks\<close> (\<^verbatim>\<open>addtrack\<close>, \<^verbatim>\<open>removetrack\<close>, \<^verbatim>\<open>change\<close>) have
  one and the same body, \<^verbatim>\<open>tracks.value = tracksToArray(el.textTracks)\<close>, where \<^verbatim>\<open>el\<close> is
  the element the listeners were attached to.
\<close>

definition textTracks_listener :: "HTMLMediaElement \<Rightarrow> media \<Rightarrow> media" where
  "textTracks_listener el s = s\<lparr>tracks := tracksToArray (textTracks el)\<rparr>"


section \<open>Track selection\<close>

text \<open>
  The argument of \<^verbatim>\<open>enableTrack\<close> and \<^verbatim>\<open>disableTrack\<close>: a number or a
  \<^verbatim>\<open>UseMediaTextTrack\<close>. An omitted argument (\<^verbatim>\<open>undefined\<close>) is \<open>None\<close>.
\<close>

datatype track_ref = TrackNumber int | TrackObject UseMediaTextTrack

text \<open>JavaScript truthiness of such a value: the number 0 is falsy, an object is truthy.\<close>

fun truthy_track :: "track_ref \<Rightarrow> bool" where
  "truthy_track (TrackNumber n) = (n \<noteq> 0)"
| "truthy_track (TrackObject t) = True"

text \<open>\<^verbatim>\<open>isNumber(track) ? track : track.id\<close>\<close>

fun track_ref_id :: "track_ref \<Rightarrow> int" where
  "track_ref_id (TrackNumber n) = n"
| "track_ref_id (TrackObject t) = track_id t"

datatype error = TypeError

text \<open>
  \<^verbatim>\<open>el.textTracks[id].mode = m\<close>. Out of range \<^verbatim>\<open>el.textTracks[id]\<close> is \<^verbatim>\<open>undefined\<close>, and
  the assignment to a property of \<^verbatim>\<open>undefined\<close> throws a \<^verbatim>\<open>TypeError\<close>.
\<close>

definition set_track_mode ::
  "int \<Rightarrow> TextTrackMode \<Rightarrow> HTMLMediaElement \<Rightarrow> error + HTMLMediaElement" where
  "set_track_mode i m el =
     (if 0 \<le> i \<and> nat i < length (textTracks el)
      then Inr (el\<lparr>textTracks :=
                   (textTracks el)[nat i := (textTracks el ! nat i)\<lparr>mode := m\<rparr>]\<rparr>)
      else Inl TypeError)"

text \<open>
  \<^verbatim>\<open>for (let i = 0; i < el.textTracks.length; ++i) el.textTracks[i].mode = 'disabled'\<close>
\<close>

definition disable_all_tracks :: "HTMLMediaElement \<Rightarrow> HTMLMediaElement" where
  "disable_all_tracks el =
     foldl (\<lambda>e i. e\<lparr>textTracks := (textTracks e)[i := (textTracks e ! i)\<lparr>mode := disabled\<rparr>]\<rparr>)
       el [0..<length (textTracks el)]"

text \<open>
  \<^verbatim>\<open>disableTrack(track?)\<close>. A result \<open>Inl (e, s)\<close> is the exception \<open>e\<close> thrown in the state
  \<open>s\<close> reached until then; \<open>Inr s\<close> is a normal return. The branch is chosen by
  \<^verbatim>\<open>if (track)\<close>, the truthiness of the argument.
\<close>

definition disableTrack :: "track_ref option \<Rightarrow> media \<Rightarrow> (error \<times> media) + media" where
  "disableTrack track s =
     usingElRef (target s)
       (\<lambda>el.
          let all_tracks = Inr (s\<lparr>target := Some (disable_all_tracks el), selectedTrack := - 1\<rparr>)
          in case track of
               None \<Rightarrow> all_tracks
             | Some t \<Rightarrow>
                 if truthy_track t
                 then (case set_track_mode (track_ref_id t) disabled el of
                         Inl e \<Rightarrow> Inl (e, s)
                       | Inr el' \<Rightarrow> Inr (s\<lparr>target := Some el', selectedTrack := - 1\<rparr>))
                 else all_tracks)
       (Inr s)"

text \<open>
  \<^verbatim>\<open>enableTrack(track, disableTracks = true)\<close>. The inner \<^verbatim>\<open>disableTrack()\<close> mutates the
  element that \<^verbatim>\<open>el\<close> refers to, so the element is read again from the state it
  returns.
\<close>

definition enableTrack :: "track_ref \<Rightarrow> bool \<Rightarrow> media \<Rightarrow> (error \<times> media) + media" where
  "enableTrack track disableTracks s =
     usingElRef (target s)
       (\<lambda>_.
          let i = track_ref_id track
          in case (if disableTracks then disableTrack None s else Inr s) of
               Inl thrown \<Rightarrow> Inl thrown
             | Inr s1 \<Rightarrow>
                 usingElRef (target s1)
                   (\<lambda>el. case set_track_mode i showing el of
                            Inl e \<Rightarrow> Inl (e, s1)
                          | Inr el' \<Rightarrow> Inr (s1\<lparr>target := Some el', selectedTrack := i\<rparr>))
                   (Inr s1))
       (Inr s)"

text \<open>The modes of the native tracks of the bound element, in order.\<close>

definition track_modes :: "media \<Rightarrow> TextTrackMode list" where
  "track_modes s = usingElRef (target s) (\<lambda>el. map mode (textTracks el)) []"

section \<open>Picture in picture\<close>

text \<open>
  The state a promise ends in: it stays pending, or is resolved with a value, or is
  rejected with a reason. A native request (\<^verbatim>\<open>el.requestPictureInPicture()\<close>,
  \<^verbatim>\<open>document.exitPictureInPicture()\<close>) either throws when called or returns a promise.
\<close>

datatype ('v, 'e) promise = Pending | Resolved 'v | Rejected 'e

datatype ('v, 'e) native_request = Throws | Returns "('v, 'e) promise"

text \<open>
  \<^verbatim>\<open>request().then(resolve).catch(reject)\<close> inside the \<^verbatim>\<open>async\<close> callback: the returned
  promise follows the native one. When the call throws, the exception rejects the
  promise of the \<^verbatim>\<open>async\<close> callback, which nobody reads; neither \<^verbatim>\<open>resolve\<close> nor
  \<^verbatim>\<open>reject\<close> is called.
\<close>

fun then_resolve_catch_reject :: "('v, 'e) native_request \<Rightarrow> ('v, 'e) promise" where
  "then_resolve_catch_reject Throws = Pending"
| "then_resolve_catch_reject (Returns p) = p"

text \<open>\<^verbatim>\<open>document && 'pictureInPictureEnabled' in document\<close>\<close>

definition supportsPictureInPicture :: "media \<Rightarrow> bool" where
  "supportsPictureInPicture s =
     (case document s of None \<Rightarrow> False | Some d \<Rightarrow> has_pictureInPictureEnabled d)"

text \<open>
  \<^verbatim>\<open>togglePictureInPicture()\<close>: the state the returned promise ends in, given what the
  two native requests do when called.
\<close>

definition togglePictureInPicture ::
  "('v, 'e) native_request \<Rightarrow> ('v, 'e) native_request \<Rightarrow> media \<Rightarrow> ('v, 'e) promise" where
  "togglePictureInPicture requestPictureInPicture exitPictureInPicture s =
     usingElRef (target s)
       (\<lambda>el.
          if supportsPictureInPicture s
          then (if \<not> isPictureInPicture s
                then then_resolve_catch_reject requestPictureInPicture
                else then_resolve_catch_reject exitPictureInPicture)
          else Pending)
       Pending"

section \<open>Sources and tracks of the options\<close>

text \<open>JavaScript truthiness of \<^verbatim>\<open>options.src\<close>: \<^verbatim>\<open>undefined\<close> and \<^verbatim>\<open>''\<close> are falsy.\<close>

fun truthy_src :: "src_option \<Rightarrow> bool" where
  "truthy_src SrcUndefined = False"
| "truthy_src (SrcString u) = (u \<noteq> [])"
| "truthy_src (SrcObject d) = True"
| "truthy_src (SrcArray ds) = True"

text \<open>"Merge sources into an array"; reached with a truthy \<^verbatim>\<open>src\<close> only.\<close>

fun merge_sources :: "src_option \<Rightarrow> UseMediaSource list" where
  "merge_sources (SrcString u) = [\<lparr>source_src = u, source_type = None\<rparr>]"
| "merge_sources (SrcArray ds) = ds"
| "merge_sources (SrcObject d) = [d]"
| "merge_sources SrcUndefined = []"

text \<open>
  One \<^verbatim>\<open><source>\<close>: \<^verbatim>\<open>setAttribute('src', src)\<close>, \<^verbatim>\<open>setAttribute('type', type || '')\<close> and the
  \<^verbatim>\<open>error\<close> listener.
\<close>

definition create_source :: "UseMediaSource \<Rightarrow> node" where
  "create_source d =
     SourceElement (source_src d)
       (case source_type d of None \<Rightarrow> [] | Some t \<Rightarrow> if t \<noteq> [] then t else [])
       True"

text \<open>
  The effect that injects the sources, one run of it. \<^verbatim>\<open>querySelectorAll('source')\<close> is
  the source children of the element; a removed child leaves the element's list.
\<close>

definition sources_effect :: "media \<Rightarrow> media" where
  "sources_effect s =
     (case document s of
        None \<Rightarrow> s
      | Some doc \<Rightarrow>
          (case target s of
             None \<Rightarrow> s
           | Some el \<Rightarrow>
               let src = options_src s
               in if \<not> truthy_src src then s
                  else
                    let sources = merge_sources src;
                        el1 = el\<lparr>children := filter (\<lambda>e. \<not> is_source e) (children el)\<rparr>;
                        el2 = foldl (\<lambda>e d. e\<lparr>children := children e @ [create_source d]\<rparr>)
                                el1 sources;
                        el3 = el2\<lparr>calls := calls el2 @ [CallLoad]\<rparr>
                    in s\<lparr>target := Some el3\<rparr>))"

text \<open>
  One \<^verbatim>\<open><track>\<close> of the "Load Tracks" effect: \<^verbatim>\<open>track.default = isDefault || false\<close> and
  the four other properties.
\<close>

definition create_track :: "UseMediaTextTrackSource \<Rightarrow> node" where
  "create_track t =
     TrackElement (case track_default t of None \<Rightarrow> False | Some b \<Rightarrow> b)
       (track_kind t) (track_label t) (track_src t) (track_srcLang t)"

text \<open>
  The body of \<^verbatim>\<open>textTracks.forEach((..., i) => ...)\<close> on the element and on
  \<^verbatim>\<open>selectedTrack\<close>.
\<close>

definition append_track ::
  "HTMLMediaElement \<times> int \<Rightarrow> UseMediaTextTrackSource \<times> nat \<Rightarrow> HTMLMediaElement \<times> int" where
  "append_track acc ti =
     (let track = create_track (fst ti)
      in (fst acc\<lparr>children := children (fst acc) @ [track]\<rparr>,
          if el_default track then int (snd ti) else snd acc))"

definition tracks_effect :: "media \<Rightarrow> media" where
  "tracks_effect s =
     (case document s of
        None \<Rightarrow> s
      | Some doc \<Rightarrow>
          (case options_tracks s of
             None \<Rightarrow> s
           | Some descriptors \<Rightarrow>
               (case target s of
                  None \<Rightarrow> s
                | Some el \<Rightarrow>
                    if descriptors = [] then s
                    else
                      let el1 = el\<lparr>children := filter (\<lambda>e. \<not> is_track e) (children el)\<rparr>;
                          r = foldl append_track (el1, selectedTrack s)
                                (zip descriptors [0..<length descriptors])
                      in s\<lparr>target := Some (fst r), selectedTrack := snd r\<rparr>)))"

text \<open>The children of the bound element and the commands issued on it so far.\<close>

definition element_children :: "media \<Rightarrow> node list" where
  "element_children s = usingElRef (target s) children []"

definition issued_calls :: "media \<Rightarrow> native_call list" where
  "issued_calls s = usingElRef (target s) calls []"

section \<open>The two bindings that go both ways\<close>

text \<open>
  The callback of \<^verbatim>\<open>ignorableWatch(currentTime, ...)\<close>: \<^verbatim>\<open>el.currentTime = time\<close> on the
  bound element, nothing without one.
\<close>

definition currentTime_callback :: "real \<Rightarrow> media \<Rightarrow> media" where
  "currentTime_callback time s =
     (case target s of
        None \<Rightarrow> s
      | Some el \<Rightarrow>
          s\<lparr>target := Some (el\<lparr>el_currentTime := time,
                                calls := calls el @ [AssignCurrentTime time]\<rparr>)\<rparr>)"

text \<open>The callback of \<^verbatim>\<open>ignorableWatch(playing, ...)\<close>: \<^verbatim>\<open>isPlaying ? el.play() : el.pause()\<close>.\<close>

definition playing_callback :: "bool \<Rightarrow> media \<Rightarrow> media" where
  "playing_callback isPlaying s =
     (case target s of
        None \<Rightarrow> s
      | Some el \<Rightarrow>
          s\<lparr>target := Some (el\<lparr>calls := calls el @ [if isPlaying then CallPlay else CallPause]\<rparr>)\<rparr>)"

text \<open>
  Modelled from the spec: \<^verbatim>\<open>ignorableWatch\<close> of \<^verbatim>\<open>@vueuse/shared\<close>, with the \<^verbatim>\<open>ref\<close>,
  the \<^verbatim>\<open>watch\<close> and the scheduler of the reactive runtime under it, is not among the
  sources. By the spec the cell gives change notification (6a): an assignment of the
  value the cell holds notifies nobody. The bindings are not among the effects that
  run synchronously (5 names 4.1 to 4.3); a notification is queued (4.5), once per
  watch, and the effect runs when the queue is flushed, for the value the cell holds
  then, if that is not the value it last ran for. The watch is suppressible (4.5,
  6a): \<^verbatim>\<open>ignoreUpdates\<close> counts the changes its updater makes, and at the flush the
  effect is muted when every change of the cell since its last run was made inside
  \<^verbatim>\<open>ignoreUpdates\<close>. The source passes no \<^verbatim>\<open>flush\<close> option to either watch.

  This is the queueing of a watch's job: a job already queued is not queued again.
\<close>

definition queueJob :: "watched_cell \<Rightarrow> media \<Rightarrow> media" where
  "queueJob c s = (if c \<in> set (queue s) then s else s\<lparr>queue := queue s @ [c]\<rparr>)"

text \<open>
  Modelled from the spec: the assignment \<^verbatim>\<open>currentTime.value = v\<close> (the cell and its
  watch are absent as above). It is logged; when it changes the value, the change is
  counted and the watch's job is queued.
\<close>

definition write_currentTime :: "real \<Rightarrow> media \<Rightarrow> media" where
  "write_currentTime v s =
     (let s' = s\<lparr>writes := writes s @ [CurrentTime_value v]\<rparr>
      in if v = currentTime s then s'
         else queueJob CurrentTime_cell
                (s'\<lparr>currentTime := v,
                    currentTime_watch :=
                      (currentTime_watch s)\<lparr>syncCounter :=
                         Suc (syncCounter (currentTime_watch s))\<rparr>\<rparr>))"

text \<open>
  Modelled from the spec: \<^verbatim>\<open>ignoreUpdates\<close> of the watch on \<^verbatim>\<open>currentTime\<close> (absent as
  above): the changes the updater makes are added to the ignored ones.
\<close>

definition ignoreCurrentTimeUpdates :: "(media \<Rightarrow> media) \<Rightarrow> media \<Rightarrow> media" where
  "ignoreCurrentTimeUpdates updater s =
     (let syncCounterPrev = syncCounter (currentTime_watch s);
          s' = updater s;
          w = currentTime_watch s'
      in s'\<lparr>currentTime_watch :=
              w\<lparr>ignoreCounter := ignoreCounter w + (syncCounter w - syncCounterPrev)\<rparr>\<rparr>)"

text \<open>
  Modelled from the spec: the queued job of the watch on \<^verbatim>\<open>currentTime\<close> (absent as
  above). Without a change since its last run it does nothing; otherwise it resets
  the counters and runs the callback of the source, unless the changes were all
  ignored ones.
\<close>

definition currentTime_job :: "media \<Rightarrow> media" where
  "currentTime_job s =
     (let w = currentTime_watch s;
          newValue = currentTime s
      in if newValue = oldValue w then s
         else
           let ignore = (0 < ignoreCounter w \<and> ignoreCounter w = syncCounter w);
               s' = s\<lparr>currentTime_watch :=
                       \<lparr>oldValue = newValue, syncCounter = 0, ignoreCounter = 0\<rparr>\<rparr>
           in if ignore then s' else currentTime_callback newValue s')"

text \<open>
  Modelled from the spec: the assignment \<^verbatim>\<open>playing.value = v\<close> (absent as above), as
  for \<^verbatim>\<open>currentTime\<close>.
\<close>

definition write_playing :: "bool \<Rightarrow> media \<Rightarrow> media" where
  "write_playing v s =
     (let s' = s\<lparr>writes := writes s @ [Playing_value v]\<rparr>
      in if v = playing s then s'
         else queueJob Playing_cell
                (s'\<lparr>playing := v,
                    playing_watch :=
                      (playing_watch s)\<lparr>syncCounter := Suc (syncCounter (playing_watch s))\<rparr>\<rparr>))"

text \<open>
  Modelled from the spec: \<^verbatim>\<open>ignoreUpdates\<close> of the watch on \<^verbatim>\<open>playing\<close> (absent as above).
\<close>

definition ignorePlayingUpdates :: "(media \<Rightarrow> media) \<Rightarrow> media \<Rightarrow> media" where
  "ignorePlayingUpdates updater s =
     (let syncCounterPrev = syncCounter (playing_watch s);
          s' = updater s;
          w = playing_watch s'
      in s'\<lparr>playing_watch :=
              w\<lparr>ignoreCounter := ignoreCounter w + (syncCounter w - syncCounterPrev)\<rparr>\<rparr>)"

text \<open>
  Modelled from the spec: the queued job of the watch on \<^verbatim>\<open>playing\<close> (absent as above).
\<close>

definition playing_job :: "media \<Rightarrow> media" where
  "playing_job s =
     (let w = playing_watch s;
          newValue = playing s
      in if newValue = oldValue w then s
         else
           let ignore = (0 < ignoreCounter w \<and> ignoreCounter w = syncCounter w);
               s' = s\<lparr>playing_watch :=
                       \<lparr>oldValue = newValue, syncCounter = 0, ignoreCounter = 0\<rparr>\<rparr>
           in if ignore then s' else playing_callback newValue s')"

text \<open>
  Modelled from the spec: the flush of the queue (the scheduler is absent as above):
  the queued jobs run in the order they were queued, and the queue is empty after.
\<close>

fun run_job :: "media \<Rightarrow> watched_cell \<Rightarrow> media" where
  "run_job s CurrentTime_cell = currentTime_job s"
| "run_job s Playing_cell = playing_job s"

definition flush :: "media \<Rightarrow> media" where
  "flush s = foldl run_job (s\<lparr>queue := []\<rparr>) (queue s)"



section \<open>Listeners on the element\<close>

text \<open>The fourteen events the module subscribes to with \<^verbatim>\<open>useEventListener(target, ...)\<close>.\<close>

datatype media_event =
  Ev_timeupdate | Ev_durationchange | Ev_progress | Ev_seeking | Ev_seeked
| Ev_waiting | Ev_playing | Ev_ratechange | Ev_stalled | Ev_ended | Ev_pause | Ev_play
| Ev_enterpictureinpicture | Ev_leavepictureinpicture

text \<open>
  The body of each listener, in the order of the source; \<open>el\<close> is \<^verbatim>\<open>unref(target)!\<close>.
\<close>

fun listener :: "media_event \<Rightarrow> HTMLMediaElement \<Rightarrow> media \<Rightarrow> media" where
  "listener Ev_timeupdate el s =
     ignoreCurrentTimeUpdates (write_currentTime (el_currentTime el)) s"
| "listener Ev_durationchange el s = s\<lparr>duration := el_duration el\<rparr>"
| "listener Ev_progress el s = s\<lparr>buffered := timeRangeToArray (el_buffered el)\<rparr>"
| "listener Ev_seeking el s = s\<lparr>seeking := True\<rparr>"
| "listener Ev_seeked el s = s\<lparr>seeking := False\<rparr>"
| "listener Ev_waiting el s = s\<lparr>waiting := True\<rparr>"
| "listener Ev_playing el s = s\<lparr>waiting := False\<rparr>"
| "listener Ev_ratechange el s = s\<lparr>rate := el_playbackRate el\<rparr>"
| "listener Ev_stalled el s = s\<lparr>stalled := True\<rparr>"
| "listener Ev_ended el s = s\<lparr>ended := True\<rparr>"
| "listener Ev_pause el s = ignorePlayingUpdates (write_playing False) s"
| "listener Ev_play el s = ignorePlayingUpdates (write_playing True) s"
| "listener Ev_enterpictureinpicture el s = s\<lparr>isPictureInPicture := True\<rparr>"
| "listener Ev_leavepictureinpicture el s = s\<lparr>isPictureInPicture := False\<rparr>"

text \<open>
  An event of the element reaches its listener when an element is bound; without
  one \<^verbatim>\<open>useEventListener\<close> has attached nothing.
\<close>

definition dispatch :: "media_event \<Rightarrow> media \<Rightarrow> media" where
  "dispatch ev s = usingElRef (target s) (\<lambda>el. listener ev el s) s"

text \<open>
  What can happen to a controller, one step at a time: the caller assigns one of the
  two cells, the element's own playback moves its position, the element fires an
  event, or the queue of jobs is flushed.
\<close>

datatype action =
  Write_currentTime real
| Write_playing bool
| Playback real
| Fire media_event
| Flush

fun step :: "media \<Rightarrow> action \<Rightarrow> media" where
  "step s (Write_currentTime v) = write_currentTime v s"
| "step s (Write_playing b) = write_playing b s"
| "step s (Playback t) = s\<lparr>target := map_option (\<lambda>el. el\<lparr>el_currentTime := t\<rparr>) (target s)\<rparr>"
| "step s (Fire ev) = dispatch ev s"
| "step s Flush = flush s"

definition run :: "media \<Rightarrow> action list \<Rightarrow> media" where
  "run s acts = foldl step s acts"


section \<open>A controller to run the operations on\<close>

text \<open>
  A video with an opaque child, an old \<^verbatim>\<open><source>\<close> and an old \<^verbatim>\<open><track>\<close>, and three
  native text tracks, bound to a controller in its initial state (the initial values
  of the refs of the source, \<^verbatim>\<open>src: ''\<close> and \<^verbatim>\<open>tracks: []\<close> from \<^verbatim>\<open>defaultOptions\<close>).
\<close>

definition demo_text_track :: "string \<Rightarrow> TextTrackMode \<Rightarrow> TextTrack" where
  "demo_text_track l m =
     \<lparr>label = l, kind = subtitles, language = l, mode = m, activeCues = None, cues = None,
      inBandMetadataTrackDispatchType = []\<rparr>"

definition demo_element :: HTMLMediaElement where
  "demo_element =
     \<lparr>children = [OtherElement ''p'', SourceElement ''old.mp4'' ''video/mp4'' True,
                  TrackElement False captions ''Old'' ''old.vtt'' ''en''],
      textTracks = [demo_text_track ''en'' showing, demo_text_track ''fr'' showing,
                    demo_text_track ''de'' hidden],
      el_currentTime = 0, el_duration = 60, el_playbackRate = 1, el_buffered = [],
      calls = []\<rparr>"

definition demo_media :: media where
  "demo_media =
     \<lparr>target = Some demo_element,
      document = Some \<lparr>has_pictureInPictureEnabled = True\<rparr>,
      options_src = SrcString [], options_tracks = Some [],
      currentTime = 0, duration = 0, seeking = False, buffering = False, volume = 1,
      waiting = False, ended = False, playing = False, rate = 1, stalled = False,
      buffered = [], tracks = [], selectedTrack = - 1, isPictureInPicture = False,
      currentTime_watch = \<lparr>oldValue = 0, syncCounter = 0, ignoreCounter = 0\<rparr>,
      playing_watch = \<lparr>oldValue = False, syncCounter = 0, ignoreCounter = 0\<rparr>,
      queue = [], writes = []\<rparr>"

text \<open>The two text-track descriptors of the spec's example (8).\<close>

definition demo_track_sources :: "UseMediaTextTrackSource list" where
  "demo_track_sources =
     [\<lparr>track_default = Some False, track_kind = subtitles, track_label = ''EN'',
       track_src = ''en.vtt'', track_srcLang = ''en''\<rparr>,
      \<lparr>track_default = Some True, track_kind = subtitles, track_label = ''FR'',
       track_src = ''fr.vtt'', track_srcLang = ''fr''\<rparr>]"

section \<open>Track list\<close>

lemma length_tracksToArray: "length (tracksToArray ts) = length ts"
  by (simp add: tracksToArray_def)

lemma nth_tracksToArray:
  "i < length ts \<Longrightarrow>
   tracksToArray ts ! i =
     \<lparr>label = label (ts ! i), kind = kind (ts ! i), language = language (ts ! i),
      mode = mode (ts ! i), activeCues = activeCues (ts ! i), cues = cues (ts ! i),
      inBandMetadataTrackDispatchType = inBandMetadataTrackDispatchType (ts ! i),
      track_id = int i\<rparr>"
  by (simp add: tracksToArray_def)

lemma truncate_tracksToArray: "map TextTrack.truncate (tracksToArray ts) = ts"
proof (rule nth_equalityI)
  show "length (map TextTrack.truncate (tracksToArray ts)) = length ts"
    by (simp add: length_tracksToArray)
next
  fix i
  assume "i < length (map TextTrack.truncate (tracksToArray ts))"
  then have i: "i < length ts"
    by (simp add: length_tracksToArray)
  then show "map TextTrack.truncate (tracksToArray ts) ! i = ts ! i"
    by (simp add: length_tracksToArray nth_tracksToArray TextTrack.truncate_def)
qed

lemma ids_tracksToArray: "map track_id (tracksToArray ts) = map int [0..<length ts]"
proof (rule nth_equalityI)
  show "length (map track_id (tracksToArray ts)) = length (map int [0..<length ts])"
    by (simp add: length_tracksToArray)
next
  fix i
  assume "i < length (map track_id (tracksToArray ts))"
  then have i: "i < length ts"
    by (simp add: length_tracksToArray)
  then show "map track_id (tracksToArray ts) ! i = map int [0..<length ts] ! i"
    by (simp add: length_tracksToArray nth_tracksToArray)
qed

text \<open>
  C9. After any of the three track-list listeners has run, the \<^verbatim>\<open>tracks\<close> state list
  has one entry per native track, the ids of its entries are \<open>0, 1, 2, ...\<close> in this
  order (the id of the i-th entry is i), and dropping the ids gives back the native
  collection, so the entries are in the collection's order.
\<close>

theorem tracks_rebuilt_ids_are_indices:
  "length (tracks (textTracks_listener el s)) = length (textTracks el) \<and>
   map track_id (tracks (textTracks_listener el s)) = map int [0..<length (textTracks el)] \<and>
   map TextTrack.truncate (tracks (textTracks_listener el s)) = textTracks el"
  by (simp add: textTracks_listener_def length_tracksToArray ids_tracksToArray
      truncate_tracksToArray)

section \<open>Operations on the native tracks\<close>

lemma disable_prefix:
  "n \<le> length (textTracks el) \<Longrightarrow>
   foldl (\<lambda>e i. e\<lparr>textTracks := (textTracks e)[i := (textTracks e ! i)\<lparr>mode := disabled\<rparr>]\<rparr>)
     el [0..<n] =
   el\<lparr>textTracks := map (\<lambda>t. t\<lparr>mode := disabled\<rparr>) (take n (textTracks el))
                      @ drop n (textTracks el)\<rparr>"
proof (induction n)
  case 0
  then show ?case by simp
next
  case (Suc n)
  then have n: "n < length (textTracks el)" by simp
  have d: "drop n (textTracks el) = textTracks el ! n # drop (Suc n) (textTracks el)"
    using n by (simp add: Cons_nth_drop_Suc)
  show ?case
    using Suc n
    by (simp add: d take_Suc_conv_app_nth list_update_append nth_append)
qed

lemma disable_all_tracks_eq:
  "disable_all_tracks el = el\<lparr>textTracks := map (\<lambda>t. t\<lparr>mode := disabled\<rparr>) (textTracks el)\<rparr>"
  by (simp add: disable_all_tracks_def disable_prefix)

lemma modes_after_disabling:
  "map (mode \<circ> mode_update (\<lambda>_. disabled)) ts = replicate (length ts) disabled"
  by (simp add: comp_def map_replicate_const)

lemma disableTrack_all:
  "target s = Some el \<Longrightarrow>
   disableTrack None s =
     Inr (s\<lparr>target := Some (el\<lparr>textTracks := map (\<lambda>t. t\<lparr>mode := disabled\<rparr>) (textTracks el)\<rparr>),
           selectedTrack := - 1\<rparr>)"
  by (simp add: disableTrack_def usingElRef_def disable_all_tracks_eq)

lemma enableTrack_disabling_others:
  assumes "target s = Some el" and "n < length (textTracks el)"
  shows "\<exists>s' el'. enableTrack (TrackNumber (int n)) True s = Inr s' \<and>
           target s' = Some el' \<and>
           length (textTracks el') = length (textTracks el) \<and>
           track_modes s' = (replicate (length (textTracks el)) disabled)[n := showing] \<and>
           selectedTrack s' = int n"
  using assms
  by (simp add: enableTrack_def usingElRef_def disableTrack_all set_track_mode_def
      track_modes_def map_update modes_after_disabling)

text \<open>
  C8. With an element bound: when the element has native tracks 0 and 1,
  \<^verbatim>\<open>enableTrack(0)\<close> followed by \<^verbatim>\<open>enableTrack(1)\<close>, both with the default
  \<^verbatim>\<open>disableTracks\<close>, return normally and leave track 1 in mode \<^verbatim>\<open>showing\<close>, every other
  track in mode \<^verbatim>\<open>disabled\<close> and \<^verbatim>\<open>selectedTrack\<close> at 1; and \<^verbatim>\<open>disableTrack()\<close> without
  an argument returns normally and leaves every track in mode \<^verbatim>\<open>disabled\<close> and
  \<^verbatim>\<open>selectedTrack\<close> at -1.
\<close>

theorem enable_twice_then_disable_all:
  assumes "target s = Some el"
  shows "(2 \<le> length (textTracks el) \<longrightarrow>
            (\<exists>s1 s2. enableTrack (TrackNumber 0) True s = Inr s1 \<and>
                     enableTrack (TrackNumber 1) True s1 = Inr s2 \<and>
                     track_modes s2 = (replicate (length (textTracks el)) disabled)[1 := showing] \<and>
                     selectedTrack s2 = 1)) \<and>
         (\<exists>s3. disableTrack None s = Inr s3 \<and>
               track_modes s3 = replicate (length (textTracks el)) disabled \<and>
               selectedTrack s3 = - 1)"
proof (intro conjI impI)
  assume two: "2 \<le> length (textTracks el)"
  then have zero: "0 < length (textTracks el)" and one: "1 < length (textTracks el)"
    by linarith+
  from enableTrack_disabling_others [OF assms zero]
  obtain s1 el1 where s1: "enableTrack (TrackNumber 0) True s = Inr s1"
    and el1: "target s1 = Some el1"
    and l1: "length (textTracks el1) = length (textTracks el)"
    by auto
  from one l1 have one': "1 < length (textTracks el1)"
    by simp
  from enableTrack_disabling_others [OF el1 one'] l1
  obtain s2 where "enableTrack (TrackNumber 1) True s1 = Inr s2"
    and "track_modes s2 = (replicate (length (textTracks el)) disabled)[1 := showing]"
    and "selectedTrack s2 = 1"
    by auto
  with s1 show "\<exists>s1 s2. enableTrack (TrackNumber 0) True s = Inr s1 \<and>
      enableTrack (TrackNumber 1) True s1 = Inr s2 \<and>
      track_modes s2 = (replicate (length (textTracks el)) disabled)[1 := showing] \<and>
      selectedTrack s2 = 1"
    by blast
next
  show "\<exists>s3. disableTrack None s = Inr s3 \<and>
      track_modes s3 = replicate (length (textTracks el)) disabled \<and>
      selectedTrack s3 = - 1"
    using assms
    by (simp add: disableTrack_all track_modes_def usingElRef_def modes_after_disabling)
qed

theorem enable_twice_then_disable_all_witness:
  "target demo_media = Some demo_element \<and> 2 \<le> length (textTracks demo_element) \<and>
   (\<exists>s1 s2. enableTrack (TrackNumber 0) True demo_media = Inr s1 \<and>
            enableTrack (TrackNumber 1) True s1 = Inr s2 \<and>
            track_modes s2 = [disabled, showing, disabled] \<and>
            selectedTrack s2 = 1) \<and>
   (\<exists>s3. disableTrack None demo_media = Inr s3 \<and>
         track_modes s3 = [disabled, disabled, disabled] \<and>
         selectedTrack s3 = - 1)"
proof -
  have t: "target demo_media = Some demo_element"
    by (simp add: demo_media_def)
  have l: "length (textTracks demo_element) = 3"
    by (simp add: demo_element_def)
  have r: "replicate 3 disabled = [disabled, disabled, disabled]"
    by (simp add: numeral_3_eq_3)
  show ?thesis
    using enable_twice_then_disable_all [OF t] t by (simp add: l r)
qed

text \<open>A reference that is truthy and in range disables that track alone.\<close>

lemma disableTrack_specific:
  assumes "target s = Some el" and "truthy_track t"
    and "0 \<le> track_ref_id t" and "nat (track_ref_id t) < length (textTracks el)"
  shows "disableTrack (Some t) s =
           Inr (s\<lparr>target := Some (el\<lparr>textTracks :=
                   (textTracks el)[nat (track_ref_id t) :=
                      (textTracks el ! nat (track_ref_id t))\<lparr>mode := disabled\<rparr>]\<rparr>),
                 selectedTrack := - 1\<rparr>)"
  using assms by (simp add: disableTrack_def usingElRef_def set_track_mode_def)

lemma disableTrack_zero_is_disableTrack_all:
  "disableTrack (Some (TrackNumber 0)) s = disableTrack None s"
  by (simp add: disableTrack_def)

text \<open>
  C2. \<^verbatim>\<open>disableTrack(track)\<close> is to set the mode of the given track alone to
  \<^verbatim>\<open>disabled\<close>, also for the numeric id 0. On the code the number 0 is falsy, so
  \<^verbatim>\<open>disableTrack(0)\<close> takes the branch of the omitted argument: on an element whose
  tracks are \<^verbatim>\<open>showing\<close>, \<^verbatim>\<open>showing\<close> and \<^verbatim>\<open>hidden\<close>, it leaves all three \<^verbatim>\<open>disabled\<close>,
  where the tracks 1 and 2 were to keep their modes.
\<close>

theorem disableTrack_number_zero_disables_every_track:
  "track_modes demo_media = [showing, showing, hidden] \<and>
   (\<exists>s'. disableTrack (Some (TrackNumber 0)) demo_media = Inr s' \<and>
         track_modes s' = [disabled, disabled, disabled] \<and> selectedTrack s' = - 1)"
  by (simp add: disableTrack_def usingElRef_def disable_all_tracks_def track_modes_def
      demo_media_def demo_element_def demo_text_track_def upt_rec)


section \<open>The promise of the picture-in-picture toggle\<close>

text \<open>
  C4. When the picture-in-picture support flag is false, the promise returned by
  \<^verbatim>\<open>togglePictureInPicture()\<close> stays pending, whatever the two native requests would
  do: it is neither resolved nor rejected.
\<close>

theorem togglePictureInPicture_unsupported_stays_pending:
  "\<not> supportsPictureInPicture s \<Longrightarrow>
   togglePictureInPicture requestPictureInPicture exitPictureInPicture s = Pending"
  by (simp add: togglePictureInPicture_def usingElRef_def split: option.split)

theorem togglePictureInPicture_unsupported_stays_pending_witness:
  "\<not> supportsPictureInPicture (demo_media\<lparr>document := Some \<lparr>has_pictureInPictureEnabled = False\<rparr>\<rparr>) \<and>
   target (demo_media\<lparr>document := Some \<lparr>has_pictureInPictureEnabled = False\<rparr>\<rparr>) = Some demo_element \<and>
   togglePictureInPicture (Returns (Resolved ())) (Returns (Rejected ''NotAllowedError''))
     (demo_media\<lparr>document := Some \<lparr>has_pictureInPictureEnabled = False\<rparr>\<rparr>) = Pending"
proof -
  have u: "\<not> supportsPictureInPicture
             (demo_media\<lparr>document := Some \<lparr>has_pictureInPictureEnabled = False\<rparr>\<rparr>)"
    by (simp add: supportsPictureInPicture_def)
  show ?thesis
    using u togglePictureInPicture_unsupported_stays_pending [OF u]
    by (simp add: demo_media_def)
qed

text \<open>
  C10. When no element is bound at the call, the promise returned by
  \<^verbatim>\<open>togglePictureInPicture()\<close> stays pending, whatever the support flag is and whatever
  the two native requests would do.
\<close>

theorem togglePictureInPicture_unbound_stays_pending:
  "target s = None \<Longrightarrow>
   togglePictureInPicture requestPictureInPicture exitPictureInPicture s = Pending"
  by (simp add: togglePictureInPicture_def usingElRef_def)

theorem togglePictureInPicture_unbound_stays_pending_witness:
  "target (demo_media\<lparr>target := None\<rparr>) = None \<and>
   supportsPictureInPicture (demo_media\<lparr>target := None\<rparr>) \<and>
   togglePictureInPicture (Returns (Resolved ())) (Returns (Rejected ''NotAllowedError''))
     (demo_media\<lparr>target := None\<rparr>) = Pending"
proof -
  have t: "target (demo_media\<lparr>target := None\<rparr>) = None"
    by simp
  show ?thesis
    using t togglePictureInPicture_unbound_stays_pending [OF t]
    by (simp add: supportsPictureInPicture_def demo_media_def)
qed

text \<open>With an element and support the promise does follow the native request.\<close>

lemma togglePictureInPicture_follows_request:
  "target s = Some el \<Longrightarrow> supportsPictureInPicture s \<Longrightarrow> \<not> isPictureInPicture s \<Longrightarrow>
   togglePictureInPicture (Returns p) exitPictureInPicture s = p"
  by (simp add: togglePictureInPicture_def usingElRef_def)

section \<open>Derived state\<close>

lemma queueJob_buffering: "buffering (queueJob c s) = buffering s"
  by (simp add: queueJob_def)

lemma write_currentTime_buffering: "buffering (write_currentTime v s) = buffering s"
  by (simp add: write_currentTime_def Let_def queueJob_buffering)

lemma write_playing_buffering: "buffering (write_playing v s) = buffering s"
  by (simp add: write_playing_def Let_def queueJob_buffering)

lemma run_job_buffering: "buffering (run_job s c) = buffering s"
  by (cases c)
    (simp_all add: currentTime_job_def playing_job_def currentTime_callback_def
      playing_callback_def Let_def split: option.split)

lemma flush_buffering: "buffering (flush s) = buffering s"
proof -
  have "buffering (foldl run_job t cs) = buffering t" for t cs
    by (induction cs arbitrary: t) (simp_all add: run_job_buffering)
  then show ?thesis
    by (simp add: flush_def)
qed

lemma listener_buffering: "buffering (listener ev el s) = buffering s"
  by (cases ev)
    (simp_all add: ignoreCurrentTimeUpdates_def ignorePlayingUpdates_def Let_def
      write_currentTime_buffering write_playing_buffering)

lemma step_buffering: "buffering (step s a) = buffering s"
  by (cases a)
    (simp_all add: write_currentTime_buffering write_playing_buffering dispatch_def
      usingElRef_def listener_buffering flush_buffering split: option.split)

lemma run_buffering: "buffering (run s acts) = buffering s"
  unfolding run_def by (induction acts arbitrary: s) (simp_all add: step_buffering)

text \<open>
  C3. Each of \<^verbatim>\<open>seeking\<close>, \<^verbatim>\<open>waiting\<close>, \<^verbatim>\<open>stalled\<close>, \<^verbatim>\<open>ended\<close> and \<^verbatim>\<open>buffering\<close> is to have
  a listener that writes it. On the code the first four have one, and \<^verbatim>\<open>buffering\<close>
  has none: no sequence of writes, playback, events and flushes changes it, and after every
  one of the fourteen events has fired it still is \<^verbatim>\<open>false\<close>.
\<close>

theorem buffering_is_never_written:
  "buffering (run s acts) = buffering s \<and>
   seeking (dispatch Ev_seeking demo_media) \<and>
   waiting (dispatch Ev_waiting demo_media) \<and>
   stalled (dispatch Ev_stalled demo_media) \<and>
   ended (dispatch Ev_ended demo_media) \<and>
   \<not> buffering (run demo_media (map Fire
        [Ev_timeupdate, Ev_durationchange, Ev_progress, Ev_seeking, Ev_seeked, Ev_waiting,
         Ev_playing, Ev_ratechange, Ev_stalled, Ev_ended, Ev_pause, Ev_play,
         Ev_enterpictureinpicture, Ev_leavepictureinpicture]))"
  by (simp add: run_buffering dispatch_def usingElRef_def demo_media_def)


section \<open>Source reconciliation\<close>

lemma append_sources:
  "foldl (\<lambda>e d. e\<lparr>children := children e @ [create_source d]\<rparr>) e ds =
   e\<lparr>children := children e @ map create_source ds\<rparr>"
  by (induction ds arbitrary: e) simp_all

lemma sources_effect_truthy:
  assumes "document s = Some doc" and "target s = Some el" and "truthy_src (options_src s)"
  shows "sources_effect s =
           s\<lparr>target := Some (el\<lparr>children := filter (\<lambda>e. \<not> is_source e) (children el)
                                   @ map create_source (merge_sources (options_src s)),
                                 calls := calls el @ [CallLoad]\<rparr>)\<rparr>"
  using assms by (simp add: sources_effect_def Let_def append_sources)

lemma is_source_create_source: "is_source (create_source d)"
  by (simp add: create_source_def)

lemma source_children_after:
  "filter is_source (filter (\<lambda>e. \<not> is_source e) cs @ map create_source ds) =
   map create_source ds"
proof -
  have "filter is_source (filter (\<lambda>e. \<not> is_source e) cs) = []"
    by (induction cs) simp_all
  moreover have "filter is_source (map create_source ds) = map create_source ds"
    by (induction ds) (simp_all add: is_source_create_source)
  ultimately show ?thesis by simp
qed

text \<open>
  C5, as stated, at the string \<^verbatim>\<open>''\<close> (the default of \<^verbatim>\<open>src\<close>): with an element and a
  document, the run creates no source child for the string (the element keeps the one
  old source child it had) and does not call \<^verbatim>\<open>load()\<close>.
\<close>

theorem sources_effect_empty_string_creates_nothing:
  "options_src demo_media = SrcString [] \<and>
   target demo_media = Some demo_element \<and>
   document demo_media = Some \<lparr>has_pictureInPictureEnabled = True\<rparr> \<and>
   filter is_source (element_children (sources_effect demo_media)) =
     [SourceElement ''old.mp4'' ''video/mp4'' True] \<and>
   count_list (issued_calls (sources_effect demo_media)) CallLoad = 0"
  by (simp add: sources_effect_def element_children_def issued_calls_def usingElRef_def
      demo_media_def demo_element_def)

text \<open>
  C5, amended. For every bound element with a document and every truthy \<^verbatim>\<open>src\<close> (a
  string that is not empty, a descriptor, a list): after a run the children of the
  element are its former children that are no sources, in their order, followed by
  the new source children, and these are its only source children (the old ones are
  gone); the new ones are, for a string, exactly one child with that url and the
  empty codec type, for a descriptor exactly one child with its url and its codec
  type, and for a list exactly one child per entry, in list order, with the entry's
  url and codec type (the empty string when there is none); and \<^verbatim>\<open>load()\<close> has been
  called exactly once more.
\<close>

theorem sources_effect_truthy_src:
  assumes "document s = Some doc" and "target s = Some el" and "truthy_src (options_src s)"
  shows "(\<forall>u. options_src s = SrcString u \<longrightarrow>
            element_children (sources_effect s) =
              filter (\<lambda>e. \<not> is_source e) (children el) @ [SourceElement u [] True] \<and>
            filter is_source (element_children (sources_effect s)) =
              [SourceElement u [] True]) \<and>
         (\<forall>d. options_src s = SrcObject d \<longrightarrow>
            element_children (sources_effect s) =
              filter (\<lambda>e. \<not> is_source e) (children el)
              @ [SourceElement (source_src d)
                   (case source_type d of None \<Rightarrow> [] | Some t \<Rightarrow> t) True] \<and>
            filter is_source (element_children (sources_effect s)) =
              [SourceElement (source_src d)
                 (case source_type d of None \<Rightarrow> [] | Some t \<Rightarrow> t) True]) \<and>
         (\<forall>ds. options_src s = SrcArray ds \<longrightarrow>
            element_children (sources_effect s) =
              filter (\<lambda>e. \<not> is_source e) (children el)
              @ map (\<lambda>d. SourceElement (source_src d)
                            (case source_type d of None \<Rightarrow> [] | Some t \<Rightarrow> t) True) ds \<and>
            filter is_source (element_children (sources_effect s)) =
              map (\<lambda>d. SourceElement (source_src d)
                          (case source_type d of None \<Rightarrow> [] | Some t \<Rightarrow> t) True) ds) \<and>
         issued_calls (sources_effect s) = calls el @ [CallLoad]"
proof -
  have kids: "element_children (sources_effect s) =
      filter (\<lambda>e. \<not> is_source e) (children el)
      @ map create_source (merge_sources (options_src s))"
    by (simp add: sources_effect_truthy [OF assms] element_children_def usingElRef_def)
  have srcs: "filter is_source (element_children (sources_effect s)) =
      map create_source (merge_sources (options_src s))"
    by (simp only: kids source_children_after)
  have load: "issued_calls (sources_effect s) = calls el @ [CallLoad]"
    by (simp add: sources_effect_truthy [OF assms] issued_calls_def usingElRef_def)
  have cs: "create_source = (\<lambda>d. SourceElement (source_src d)
      (case source_type d of None \<Rightarrow> [] | Some t \<Rightarrow> t) True)"
    by (rule ext) (simp add: create_source_def split: option.split)
  have one: "element_children (sources_effect s) =
        filter (\<lambda>e. \<not> is_source e) (children el) @ [SourceElement u [] True] \<and>
      filter is_source (element_children (sources_effect s)) = [SourceElement u [] True]"
    if "options_src s = SrcString u" for u
    using that by (simp add: kids srcs create_source_def)
  have obj: "element_children (sources_effect s) =
        filter (\<lambda>e. \<not> is_source e) (children el)
        @ [SourceElement (source_src d)
             (case source_type d of None \<Rightarrow> [] | Some t \<Rightarrow> t) True] \<and>
      filter is_source (element_children (sources_effect s)) =
        [SourceElement (source_src d)
           (case source_type d of None \<Rightarrow> [] | Some t \<Rightarrow> t) True]"
    if "options_src s = SrcObject d" for d
    using that by (simp add: kids srcs cs)
  have arr: "element_children (sources_effect s) =
        filter (\<lambda>e. \<not> is_source e) (children el)
        @ map (\<lambda>d. SourceElement (source_src d)
                      (case source_type d of None \<Rightarrow> [] | Some t \<Rightarrow> t) True) ds \<and>
      filter is_source (element_children (sources_effect s)) =
        map (\<lambda>d. SourceElement (source_src d)
                    (case source_type d of None \<Rightarrow> [] | Some t \<Rightarrow> t) True) ds"
    if "options_src s = SrcArray ds" for ds
    using that by (simp add: kids srcs cs)
  from one obj arr load show ?thesis
    by blast
qed

theorem sources_effect_truthy_src_witness:
  "document (demo_media\<lparr>options_src := SrcString ''a.mp4''\<rparr>)
     = Some \<lparr>has_pictureInPictureEnabled = True\<rparr> \<and>
   target (demo_media\<lparr>options_src := SrcString ''a.mp4''\<rparr>) = Some demo_element \<and>
   truthy_src (options_src (demo_media\<lparr>options_src := SrcString ''a.mp4''\<rparr>)) \<and>
   element_children (sources_effect (demo_media\<lparr>options_src := SrcString ''a.mp4''\<rparr>))
     = [OtherElement ''p'', TrackElement False captions ''Old'' ''old.vtt'' ''en'',
        SourceElement ''a.mp4'' [] True] \<and>
   issued_calls (sources_effect (demo_media\<lparr>options_src := SrcString ''a.mp4''\<rparr>))
     = [CallLoad] \<and>
   truthy_src (options_src (demo_media\<lparr>options_src := SrcObject
       \<lparr>source_src = ''a.webm'', source_type = None\<rparr>\<rparr>)) \<and>
   element_children (sources_effect (demo_media\<lparr>options_src := SrcObject
       \<lparr>source_src = ''a.webm'', source_type = None\<rparr>\<rparr>))
     = [OtherElement ''p'', TrackElement False captions ''Old'' ''old.vtt'' ''en'',
        SourceElement ''a.webm'' [] True] \<and>
   issued_calls (sources_effect (demo_media\<lparr>options_src := SrcObject
       \<lparr>source_src = ''a.webm'', source_type = None\<rparr>\<rparr>))
     = [CallLoad] \<and>
   truthy_src (options_src (demo_media\<lparr>options_src := SrcArray
       [\<lparr>source_src = ''a.mp4'', source_type = Some ''video/mp4''\<rparr>,
        \<lparr>source_src = ''a.ogv'', source_type = Some ''video/ogg''\<rparr>]\<rparr>)) \<and>
   element_children (sources_effect (demo_media\<lparr>options_src := SrcArray
       [\<lparr>source_src = ''a.mp4'', source_type = Some ''video/mp4''\<rparr>,
        \<lparr>source_src = ''a.ogv'', source_type = Some ''video/ogg''\<rparr>]\<rparr>))
     = [OtherElement ''p'', TrackElement False captions ''Old'' ''old.vtt'' ''en'',
        SourceElement ''a.mp4'' ''video/mp4'' True, SourceElement ''a.ogv'' ''video/ogg'' True] \<and>
   issued_calls (sources_effect (demo_media\<lparr>options_src := SrcArray
       [\<lparr>source_src = ''a.mp4'', source_type = Some ''video/mp4''\<rparr>,
        \<lparr>source_src = ''a.ogv'', source_type = Some ''video/ogg''\<rparr>]\<rparr>))
     = [CallLoad]"
proof -
  let ?one = "demo_media\<lparr>options_src := SrcString ''a.mp4''\<rparr>"
  let ?obj = "demo_media\<lparr>options_src := SrcObject
       \<lparr>source_src = ''a.webm'', source_type = None\<rparr>\<rparr>"
  let ?two = "demo_media\<lparr>options_src := SrcArray
       [\<lparr>source_src = ''a.mp4'', source_type = Some ''video/mp4''\<rparr>,
        \<lparr>source_src = ''a.ogv'', source_type = Some ''video/ogg''\<rparr>]\<rparr>"
  have d1: "document ?one = Some \<lparr>has_pictureInPictureEnabled = True\<rparr>"
    by (simp add: demo_media_def)
  have t1: "target ?one = Some demo_element"
    by (simp add: demo_media_def)
  have y1: "truthy_src (options_src ?one)"
    by simp
  have d2: "document ?two = Some \<lparr>has_pictureInPictureEnabled = True\<rparr>"
    by (simp add: demo_media_def)
  have t2: "target ?two = Some demo_element"
    by (simp add: demo_media_def)
  have y2: "truthy_src (options_src ?two)"
    by simp
  have d3: "document ?obj = Some \<lparr>has_pictureInPictureEnabled = True\<rparr>"
    by (simp add: demo_media_def)
  have t3: "target ?obj = Some demo_element"
    by (simp add: demo_media_def)
  have y3: "truthy_src (options_src ?obj)"
    by simp
  have c: "calls demo_element = []"
    by (simp add: demo_element_def)
  have k: "filter (\<lambda>e. \<not> is_source e) (children demo_element) =
      [OtherElement ''p'', TrackElement False captions ''Old'' ''old.vtt'' ''en'']"
    by (simp add: demo_element_def)
  show ?thesis
    using sources_effect_truthy_src [OF d1 t1 y1] sources_effect_truthy_src [OF d3 t3 y3]
      sources_effect_truthy_src [OF d2 t2 y2] d1 t1
    by (simp add: c k)
qed

text \<open>
  C6. When \<^verbatim>\<open>src\<close> is falsy (\<^verbatim>\<open>undefined\<close> or \<^verbatim>\<open>''\<close>), a run of the effect changes
  nothing: the element keeps its children, source children included, none is
  created, and \<^verbatim>\<open>load()\<close> is not called.
\<close>

theorem sources_effect_falsy_src:
  "\<not> truthy_src (options_src s) \<Longrightarrow> sources_effect s = s"
  by (simp add: sources_effect_def split: option.split)

theorem sources_effect_falsy_src_witness:
  "\<not> truthy_src (options_src demo_media) \<and> target demo_media = Some demo_element \<and>
   document demo_media \<noteq> None \<and> sources_effect demo_media = demo_media"
proof -
  have f: "\<not> truthy_src (options_src demo_media)"
    by (simp add: demo_media_def)
  show ?thesis
    using f sources_effect_falsy_src [OF f] by (simp add: demo_media_def)
qed


section \<open>Track reconciliation\<close>

text \<open>
  The loop over the descriptors in closed form: the children are appended in order, and
  the index kept is the last position whose \<^verbatim>\<open>default\<close> flag is set.
\<close>

lemma append_tracks:
  "foldl append_track (e, sel) (zip ts [0..<length ts]) =
   (e\<lparr>children := children e @ map create_track ts\<rparr>,
    (if filter (\<lambda>i. track_default (ts ! i) = Some True) [0..<length ts] = [] then sel
     else int (last (filter (\<lambda>i. track_default (ts ! i) = Some True) [0..<length ts]))))"
proof (induction ts rule: rev_induct)
  case Nil
  then show ?case by simp
next
  case (snoc t ts)
  have z: "zip (ts @ [t]) [0..<length (ts @ [t])] = zip ts [0..<length ts] @ [(t, length ts)]"
    by simp
  have f: "filter (\<lambda>i. track_default ((ts @ [t]) ! i) = Some True) [0..<length ts] =
           filter (\<lambda>i. track_default (ts ! i) = Some True) [0..<length ts]"
    by (rule filter_cong) (simp_all add: nth_append)
  have d: "el_default (create_track t) = (track_default t = Some True)"
    by (simp add: create_track_def split: option.split)
  show ?case
    unfolding z foldl_append snoc.IH
    by (simp add: append_track_def Let_def d f)
qed

lemma tracks_effect_nonempty:
  assumes "document s = Some doc" and "target s = Some el"
    and "options_tracks s = Some ts" and "ts \<noteq> []"
  shows "tracks_effect s =
           s\<lparr>target := Some (el\<lparr>children := filter (\<lambda>e. \<not> is_track e) (children el)
                                   @ map create_track ts\<rparr>),
             selectedTrack :=
               (if filter (\<lambda>i. track_default (ts ! i) = Some True) [0..<length ts] = []
                then selectedTrack s
                else int (last (filter (\<lambda>i. track_default (ts ! i) = Some True)
                                  [0..<length ts])))\<rparr>"
  using assms by (simp add: tracks_effect_def Let_def append_tracks)

lemma track_children_after:
  "filter is_track (filter (\<lambda>e. \<not> is_track e) cs @ map create_track ts) = map create_track ts"
proof -
  have "filter is_track (filter (\<lambda>e. \<not> is_track e) cs) = []"
    by (induction cs) simp_all
  moreover have "filter is_track (map create_track ts) = map create_track ts"
    by (induction ts) (simp_all add: create_track_def)
  ultimately show ?thesis by simp
qed

text \<open>
  C7. With an element and a document, for every list of text-track descriptors: a
  run appends one \<^verbatim>\<open><track>\<close> child per descriptor, in list order, after removing the
  old track children (an empty list leaves everything as it is, so none is created);
  and \<^verbatim>\<open>selectedTrack\<close> ends at the position of the last descriptor whose \<^verbatim>\<open>default\<close>
  flag is set, and is unchanged when no descriptor has it set. For the two tracks of
  the spec, of which only the second is default, \<^verbatim>\<open>selectedTrack\<close> ends at 1.
\<close>

theorem tracks_effect_children_and_selection:
  assumes "document s = Some doc" and "target s = Some el" and "options_tracks s = Some ts"
  shows "(ts \<noteq> [] \<longrightarrow>
            element_children (tracks_effect s) =
              filter (\<lambda>e. \<not> is_track e) (children el) @ map create_track ts \<and>
            filter is_track (element_children (tracks_effect s)) = map create_track ts) \<and>
         (ts = [] \<longrightarrow> tracks_effect s = s) \<and>
         selectedTrack (tracks_effect s) =
           (if filter (\<lambda>i. track_default (ts ! i) = Some True) [0..<length ts] = []
            then selectedTrack s
            else int (last (filter (\<lambda>i. track_default (ts ! i) = Some True) [0..<length ts])))"
proof (cases "ts = []")
  case True
  with assms show ?thesis
    by (simp add: tracks_effect_def)
next
  case False
  have kids: "element_children (tracks_effect s) =
      filter (\<lambda>e. \<not> is_track e) (children el) @ map create_track ts"
    by (simp add: tracks_effect_nonempty [OF assms False] element_children_def usingElRef_def)
  have trs: "filter is_track (element_children (tracks_effect s)) = map create_track ts"
    by (simp only: kids track_children_after)
  have sel: "selectedTrack (tracks_effect s) =
      (if filter (\<lambda>i. track_default (ts ! i) = Some True) [0..<length ts] = []
       then selectedTrack s
       else int (last (filter (\<lambda>i. track_default (ts ! i) = Some True) [0..<length ts])))"
    by (simp add: tracks_effect_nonempty [OF assms False])
  from False kids trs sel show ?thesis
    by blast
qed

theorem tracks_effect_children_and_selection_witness:
  "document (demo_media\<lparr>options_tracks := Some demo_track_sources\<rparr>)
     = Some \<lparr>has_pictureInPictureEnabled = True\<rparr> \<and>
   target (demo_media\<lparr>options_tracks := Some demo_track_sources\<rparr>) = Some demo_element \<and>
   demo_track_sources \<noteq> [] \<and>
   filter is_track (element_children
       (tracks_effect (demo_media\<lparr>options_tracks := Some demo_track_sources\<rparr>)))
     = [TrackElement False subtitles ''EN'' ''en.vtt'' ''en'',
        TrackElement True subtitles ''FR'' ''fr.vtt'' ''fr''] \<and>
   selectedTrack (tracks_effect (demo_media\<lparr>options_tracks := Some demo_track_sources\<rparr>)) = 1 \<and>
   tracks_effect demo_media = demo_media"
proof -
  let ?s = "demo_media\<lparr>options_tracks := Some demo_track_sources\<rparr>"
  have d: "document ?s = Some \<lparr>has_pictureInPictureEnabled = True\<rparr>"
    by (simp add: demo_media_def)
  have t: "target ?s = Some demo_element"
    by (simp add: demo_media_def)
  have o: "options_tracks ?s = Some demo_track_sources"
    by simp
  have d0: "document demo_media = Some \<lparr>has_pictureInPictureEnabled = True\<rparr>"
    by (simp add: demo_media_def)
  have t0: "target demo_media = Some demo_element"
    by (simp add: demo_media_def)
  have o0: "options_tracks demo_media = Some []"
    by (simp add: demo_media_def)
  have n: "demo_track_sources \<noteq> []"
    by (simp add: demo_track_sources_def)
  have c: "map create_track demo_track_sources =
      [TrackElement False subtitles ''EN'' ''en.vtt'' ''en'',
       TrackElement True subtitles ''FR'' ''fr.vtt'' ''fr'']"
    by (simp add: demo_track_sources_def create_track_def)
  have f: "filter (\<lambda>i. track_default (demo_track_sources ! i) = Some True)
             [0..<length demo_track_sources] = [1]"
    by (simp add: demo_track_sources_def upt_rec)
  show ?thesis
    using tracks_effect_children_and_selection [OF d t o]
      tracks_effect_children_and_selection [OF d0 t0 o0] d t n
    by (simp add: c f)
qed


section \<open>Feedback suppression\<close>






















end
